theory Spec2Isabelle
  imports Main "HOL-Library.Sublist"
begin

section \<open>Data model\<close>

text \<open>
  The migration script works on plain JavaScript objects returned by the two remote
  services.  A field that may be absent (\<open>undefined\<close> or \<open>null\<close>) is an \<open>option\<close>.
  Strings are lists of characters; JavaScript objects used as dictionaries
  (\<open>settings.usermap\<close>, \<open>settings.projectmap\<close>) are association lists in insertion order.
\<close>

datatype error =
    ReferenceError string
  | TypeError string
  | ApiError string

record user =
  username :: string

record issue =
  iid :: "nat option"
  issue_id :: "int option"
  title :: string
  description :: string
  state :: string
  author :: "user option"
  created_at :: "string option"
  assignee :: "user option"
  milestone :: "string option"
  labels :: "string list option"

text \<open>
  The object literal \<open>placeholderItem\<close> of \<open>transferIssues\<close>: it has a title, a description
  and a state, and no other field.
\<close>

definition placeholderItem :: issue where
  "placeholderItem =
     \<lparr> iid = None, issue_id = None,
       title = ''placeholder issue for issue which does not exist and was probably deleted in GitLab'',
       description = ''This is to ensure the issue numbers in GitLab and GitHub are the same'',
       state = ''closed'',
       author = None, created_at = None, assignee = None, milestone = None, labels = None \<rparr>"

text \<open>A fetched issue with the given sequence number, for concrete runs.\<close>

definition sourceIssue :: "nat \<Rightarrow> string \<Rightarrow> issue" where
  "sourceIssue n t =
     \<lparr> iid = Some n, issue_id = Some (int n), title = t, description = [],
       state = ''open'', author = None, created_at = None, assignee = None,
       milestone = None, labels = Some [] \<rparr>"

section \<open>Configuration\<close>

text \<open>
  The fields of \<open>settings.js\<close> that the migration reads.  \<open>usermap\<close> and \<open>projectmap\<close> may be
  missing (\<open>None\<close>); when present they are objects with distinct keys.
\<close>

record settings =
  gitlab_projectId :: nat
  github_owner :: string
  github_repo :: string
  github_username :: string
  usermap :: "(string \<times> string) list option"
  projectmap :: "(string \<times> string) list option"
  useLowerCaseLabels :: bool

text \<open>\<open>Object.keys(m)\<close> for an object that is present.\<close>

definition objectKeys :: "(string \<times> string) list option \<Rightarrow> string list" where
  "objectKeys m = (case m of None \<Rightarrow> [] | Some kvs \<Rightarrow> map fst kvs)"

text \<open>\<open>m == null || Object.keys(m).length == 0\<close>\<close>

definition nullOrEmpty :: "(string \<times> string) list option \<Rightarrow> bool" where
  "nullOrEmpty m = (m = None \<or> length (objectKeys m) = 0)"

text \<open>
  A property read \<open>m[k]\<close> on an object that may be \<open>null\<close>: reading from \<open>null\<close> throws,
  a missing key gives \<open>undefined\<close> (\<open>None\<close>).
\<close>

definition getProp :: "(string \<times> string) list option \<Rightarrow> string \<Rightarrow> error + string option" where
  "getProp m k =
     (case m of
        None \<Rightarrow> Inl (TypeError ''Cannot read properties of null'')
      | Some kvs \<Rightarrow> Inr (map_of kvs k))"

text \<open>String concatenation with a value that may be \<open>undefined\<close>.\<close>

definition toStr :: "string option \<Rightarrow> string" where
  "toStr v = (case v of None \<Rightarrow> ''undefined'' | Some x \<Rightarrow> x)"

text \<open>Truthiness of a string-valued property: defined and not the empty string.\<close>

definition truthy :: "string option \<Rightarrow> bool" where
  "truthy v = (case v of None \<Rightarrow> False | Some x \<Rightarrow> x \<noteq> [])"

section \<open>String helpers of the JavaScript library\<close>

text \<open>
  \<open>String.prototype.trim\<close> removes white space and line terminators at both ends.  Of the
  characters that \<open>trim\<close> removes, those below 256 are tab, line feed, vertical tab, form feed,
  carriage return, space and no-break space.
\<close>

definition isWhiteSpace :: "char \<Rightarrow> bool" where
  "isWhiteSpace c = (of_char c \<in> {9, 10, 11, 12, 13, 32, 160 :: nat})"

definition trim :: "string \<Rightarrow> string" where
  "trim s = rev (dropWhile isWhiteSpace (rev (dropWhile isWhiteSpace s)))"

text \<open>\<open>s.indexOf(sub)\<close>: the index of the first occurrence of \<open>sub\<close> in \<open>s\<close>, or \<open>-1\<close>.\<close>

fun indexOf :: "string \<Rightarrow> string \<Rightarrow> int" where
  "indexOf sub [] = (if sub = [] then 0 else - 1)"
| "indexOf sub (c # cs) =
     (if prefix sub (c # cs) then 0
      else (let r = indexOf sub cs in if r < 0 then - 1 else r + 1))"

text \<open>
  \<open>toLowerCase\<close> on characters below 256: the letters \<open>A\<close> to \<open>Z\<close> and the capital
  letters from 192 to 222 (the multiplication sign 215 is not one) move up by 32.
\<close>

definition lowerChar :: "char \<Rightarrow> char" where
  "lowerChar c =
     (let n = (of_char c :: nat)
      in if (65 \<le> n \<and> n \<le> 90) \<or> (192 \<le> n \<and> n \<le> 222 \<and> n \<noteq> 215) then char_of (n + 32) else c)"

definition toLowerCase :: "string \<Rightarrow> string" where
  "toLowerCase s = map lowerChar s"

text \<open>
  The regular expressions of \<open>createIssueComments\<close> are sequences of literal text and \<open>.*\<close>
  (any run of characters other than line terminators).  \<open>re.test(s)\<close> holds when the
  expression matches at some position of \<open>s\<close>.
\<close>

datatype piece = Lit string | AnyStar

definition isLineTerminator :: "char \<Rightarrow> bool" where
  "isLineTerminator c = (of_char c \<in> {10, 13 :: nat})"

fun matchHere :: "piece list \<Rightarrow> string \<Rightarrow> bool" where
  "matchHere [] s = True"
| "matchHere (Lit l # ps) s = (prefix l s \<and> matchHere ps (drop (length l) s))"
| "matchHere (AnyStar # ps) [] = matchHere ps []"
| "matchHere (AnyStar # ps) (c # cs) =
     (matchHere ps (c # cs) \<or> (\<not> isLineTerminator c \<and> matchHere (AnyStar # ps) cs))"

fun test :: "piece list \<Rightarrow> string \<Rightarrow> bool" where
  "test re [] = matchHere re []"
| "test re (c # cs) = (matchHere re (c # cs) \<or> test re cs)"

section \<open>Text transformer\<close>

text \<open>
  \<open>generateUserProjectRe\<close> joins \<open>@key\<close> for every key of \<open>usermap\<close> and \<open>key#\<close> for every
  key of \<open>projectmap\<close> with \<open>|\<close> and compiles the result, unescaped, as a global regular
  expression.  \<open>generateUserProjectRe\<close> below is the list of the joined pieces in their
  order, and \<open>reString\<close> is the text that the source builds from them.  (With both maps empty
  the source compiles the empty pattern; \<open>convertIssuesAndComments\<close> does not use it then.)
\<close>

definition generateUserProjectRe :: "settings \<Rightarrow> string list" where
  "generateUserProjectRe st =
     (if \<not> nullOrEmpty (usermap st) then map (\<lambda>k. ''@'' @ k) (objectKeys (usermap st)) else [])
     @ (if \<not> nullOrEmpty (projectmap st) then map (\<lambda>k. k @ ''#'') (objectKeys (projectmap st)) else [])"

text \<open>\<open>xs.join(sep)\<close>\<close>

fun join :: "string list \<Rightarrow> string \<Rightarrow> string" where
  "join [] sep = []"
| "join [x] sep = x"
| "join (x # y # ys) sep = x @ sep @ join (y # ys) sep"

definition reString :: "settings \<Rightarrow> string" where
  "reString st =
     (let reString1 = (if \<not> nullOrEmpty (usermap st)
                       then ''@'' @ join (objectKeys (usermap st)) ''|@'' else [])
      in if \<not> nullOrEmpty (projectmap st)
         then (if length reString1 > 0 then reString1 @ ''|'' else reString1)
              @ join (objectKeys (projectmap st)) ''#|'' @ ''#''
         else reString1)"

text \<open>
  The characters with a meaning in the syntax of regular expressions:
  \<open>$ ( ) * + . ? [ \ ] ^ { | }\<close>.  A pattern built from keys without any of them is an
  alternation of literal texts, namely the pieces of \<open>generateUserProjectRe\<close>.
\<close>

definition isSyntaxCharacter :: "char \<Rightarrow> bool" where
  "isSyntaxCharacter c =
     (of_char c \<in> {36, 40, 41, 42, 43, 46, 63, 91, 92, 93, 94, 123, 124, 125 :: nat})"

definition literalKeys :: "settings \<Rightarrow> bool" where
  "literalKeys st =
     list_all (\<lambda>k. list_all (\<lambda>c. \<not> isSyntaxCharacter c) k)
       (objectKeys (usermap st) @ objectKeys (projectmap st))"

text \<open>
  \<open>str.replace(re, callback)\<close> for a global alternation of literals: at each position, from
  left to right, the first alternative that matches there is replaced by what the callback
  returns for it and the scan goes on behind the match; a character where nothing matches is
  kept.  An exception thrown by the callback ends the call.
\<close>

function replace :: "string list \<Rightarrow> (string \<Rightarrow> error + string) \<Rightarrow> string \<Rightarrow> error + string" where
  "replace alts cb [] =
     (case find (\<lambda>a. a = []) alts of
        None \<Rightarrow> Inr []
      | Some a \<Rightarrow> cb a)"
| "replace alts cb (c # cs) =
     (case find (\<lambda>a. prefix a (c # cs)) alts of
        None \<Rightarrow> (case replace alts cb cs of Inl e \<Rightarrow> Inl e | Inr r \<Rightarrow> Inr (c # r))
      | Some a \<Rightarrow>
          (case cb a of
             Inl e \<Rightarrow> Inl e
           | Inr b \<Rightarrow>
               (if a = []
                then (case replace alts cb cs of Inl e \<Rightarrow> Inl e | Inr r \<Rightarrow> Inr (b @ c # r))
                else (case replace alts cb (drop (length a) (c # cs)) of
                        Inl e \<Rightarrow> Inl e
                      | Inr r \<Rightarrow> Inr (b @ r)))))"
  by pat_completeness auto
termination
  by (relation "measure (\<lambda>(alts, cb, s). length s)") auto

text \<open>
  \<open>addMigrationLine\<close>.  \<open>toLocaleString\<close> stands for
  \<open>new Date(created_at).toLocaleString('en-US', dateformatOptions)\<close> of the runtime.  Issues
  and notes both go through it, so it takes the two fields it reads.  A user object of the
  source service always has a \<open>username\<close>.
\<close>

definition addMigrationLine ::
  "(string \<Rightarrow> string) \<Rightarrow> string \<Rightarrow> user option \<Rightarrow> string option \<Rightarrow> string" where
  "addMigrationLine toLocaleString str item_author item_created_at =
     (case (item_author, item_created_at) of
        (Some a, Some created) \<Rightarrow>
          ''In GitLab by @'' @ username a @ '' on '' @ toLocaleString created @ [CHR 0x0A, CHR 0x0A] @ str
      | _ \<Rightarrow> str)"

text \<open>
  The callback handed to \<open>replace\<close> in \<open>convertIssuesAndComments\<close>.  (A match that names a
  member which every object inherits reads that member; its text only goes into the value
  that is dropped.)
\<close>

definition rewriteMatch :: "settings \<Rightarrow> string \<Rightarrow> error + string" where
  "rewriteMatch st matched =
     (if prefix ''@'' matched then
        (case getProp (usermap st) (drop 1 matched) of
           Inl e \<Rightarrow> Inl e
         | Inr v \<Rightarrow> Inr (''@'' @ toStr v))
      else if suffix ''#'' matched then
        (case getProp (projectmap st) (take (length matched - 1) matched) of
           Inl e \<Rightarrow> Inl e
         | Inr v \<Rightarrow> Inr (toStr v @ ''#''))
      else Inr matched)"

text \<open>
  \<open>convertIssuesAndComments\<close>.  In the second branch the source calls
  \<open>strWithMigLine.replace(userProjectRe, ...)\<close> as a statement: the string that \<open>replace\<close>
  returns is dropped, and \<open>strWithMigLine\<close> itself is returned.

  The call is the runtime's \<open>String.prototype.replace\<close> with the compiled pattern.  For
  keys without syntax characters it is \<open>replace\<close> above on the pieces.  For other keys the
  pieces are regular expressions in their own right (the \<open>.\<close> of a key such as
  \<open>username.gitlab.1\<close> matches any character), and the call is the parameter
  \<open>regexReplace\<close>, the runtime's function of the pattern text, the callback and the string.
\<close>

type_synonym regexEngine = "string \<Rightarrow> (string \<Rightarrow> error + string) \<Rightarrow> string \<Rightarrow> error + string"

definition convertIssuesAndComments ::
  "settings \<Rightarrow> regexEngine \<Rightarrow> (string \<Rightarrow> string) \<Rightarrow> string \<Rightarrow> user option \<Rightarrow> string option
     \<Rightarrow> error + string" where
  "convertIssuesAndComments st regexReplace toLocaleString str item_author item_created_at =
     (if nullOrEmpty (usermap st) \<and> nullOrEmpty (projectmap st) then
        Inr (addMigrationLine toLocaleString str item_author item_created_at)
      else
        (let strWithMigLine = addMigrationLine toLocaleString str item_author item_created_at in
         case (if literalKeys st
               then replace (generateUserProjectRe st) (rewriteMatch st) strWithMigLine
               else regexReplace (reString st) (rewriteMatch st) strWithMigLine) of
           Inl e \<Rightarrow> Inl e
         | Inr replaced \<Rightarrow> Inr strWithMigLine))"

section \<open>The two remote services and the trace of a run\<close>

record milestone =
  ms_id :: int
  ms_title :: string
  ms_description :: string
  ms_state :: string
  ms_due_date :: "string option"

record label =
  lb_name :: string
  lb_color :: string

record issueNote =
  note_id :: int
  note_body :: string
  note_author :: "user option"
  note_created_at :: "string option"

record mergeRequest =
  mr_id :: int
  mr_iid :: nat
  mr_title :: string
  mr_description :: string
  mr_state :: string
  mr_source_branch :: string
  mr_target_branch :: string
  mr_sha :: "string option"
  mr_merge_commit_sha :: "string option"

text \<open>What the listing calls of the destination return, cut down to the fields that are read.\<close>

record ghMilestone =
  ghm_number :: nat
  ghm_title :: string

record ghIssue =
  gh_number :: nat
  gh_title :: string
  gh_state :: string
  gh_pull_request :: bool

record ghPullRequest =
  pr_number :: nat
  pr_title :: string

text \<open>
  The write calls of the destination API, each with the properties the source passes, in the
  order of the comment on the constructor.
\<close>

datatype request =
    CreateMilestone string string string string string "string option"
      \<comment> \<open>owner, repo, title, description, state, due_on\<close>
  | CreateLabel string string string string
      \<comment> \<open>owner, repo, name, color\<close>
  | CreateIssue string string string string "string list option" "nat option" "string list option"
      \<comment> \<open>owner, repo, title, body, assignees, milestone, labels\<close>
  | CreateComment string string nat string
      \<comment> \<open>owner, repo, number, body\<close>
  | EditIssue string string nat string
      \<comment> \<open>owner, repo, number, state\<close>
  | CreateReference string string string "string option"
      \<comment> \<open>owner, repo, ref, sha\<close>
  | CreatePullRequest string string string string string string
      \<comment> \<open>owner, repo, title, body, head, base\<close>

text \<open>
  The world a run talks to, and the two functions of the runtime that the text transformer
  uses.  The listing calls are snapshots (for the destination's issues,
  what the page-by-page loop of \<open>getAllGHIssues\<close> has collected); a failed listing ends the
  run (\<open>process.exit(1)\<close> or an unhandled rejection), so the migrators are modelled from
  fetched snapshots on.  \<open>gl_issueNotes\<close>, \<open>gl_commit\<close> and the write calls may reject.
  The two rate-limit answers are pairs of the remaining and the total number of requests.
\<close>

record env =
  toLocaleString :: "string \<Rightarrow> string"
  regexReplace :: regexEngine
  gl_milestones :: "nat \<Rightarrow> milestone list"
  gl_labels :: "nat \<Rightarrow> label list"
  gl_issues :: "nat \<Rightarrow> issue list"
  gl_mergeRequests :: "nat \<Rightarrow> mergeRequest list"
  gl_issueNotes :: "nat \<Rightarrow> nat option \<Rightarrow> error + issueNote list"
  gl_commit :: "nat \<Rightarrow> string option \<Rightarrow> error + string list"
  gh_milestones :: "ghMilestone list"
  gh_labelNames :: "string list"
  gh_allIssues :: "ghIssue list"
  gh_issues_create :: "request \<Rightarrow> error + ghIssue"
  gh_write :: "request \<Rightarrow> error option"
  gh_rateLimit_before :: "nat \<times> nat"
  gh_rateLimit_after :: "nat \<times> nat"

text \<open>What a run does that can be observed: console lines and write calls, in order.\<close>

datatype event =
    ConsoleLog string
  | ConsoleError string
  | ConsoleErrorObj error
  | Call request

text \<open>
  Calling an \<open>async\<close> function gives a promise that settles with a value or an error.
  \<open>await\<close> of a promise throws the error it was rejected with; \<open>await\<close> of a value that is
  not a promise (here only \<open>undefined\<close>) gives that value.
\<close>

datatype 'a awaitable = Undefined | Promise "error + 'a"

definition await :: "'a awaitable \<Rightarrow> error + 'a option" where
  "await p = (case p of
                Undefined \<Rightarrow> Inr None
              | Promise (Inl e) \<Rightarrow> Inl e
              | Promise (Inr v) \<Rightarrow> Inr (Some v))"

definition settle :: "error option \<Rightarrow> error + unit" where
  "settle r = (case r of None \<Rightarrow> Inr () | Some e \<Rightarrow> Inl e)"

text \<open>Decimal digits of a number, and a sequence number that may be \<open>undefined\<close>, as text.\<close>

function showNat :: "nat \<Rightarrow> string" where
  "showNat n = (if n < 10 then [char_of (48 + n)] else showNat (n div 10) @ [char_of (48 + n mod 10)])"
  by pat_completeness auto
termination
  by (relation "measure id") auto

declare showNat.simps [simp del]

definition showIid :: "nat option \<Rightarrow> string" where
  "showIid v = (case v of None \<Rightarrow> ''undefined'' | Some n \<Rightarrow> showNat n)"

definition inform :: "string \<Rightarrow> event list" where
  "inform msg =
     [ConsoleLog ''===================================='',
      ConsoleLog msg,
      ConsoleLog ''===================================='']"

section \<open>The gap-filling pass of \<open>transferIssues\<close>\<close>

text \<open>\<open>xs.splice(i, 0, x)\<close>: insert \<open>x\<close> before index \<open>i\<close>.\<close>

definition splice_js :: "nat \<Rightarrow> 'a \<Rightarrow> 'a list \<Rightarrow> 'a list" where
  "splice_js i x xs = take i xs @ x # drop i xs"

text \<open>
  The loop \<open>for (let i=0; i<issues.length; i++)\<close> with the loop variable and the array as
  arguments; it returns the console lines it prints and the array it leaves.  When the item
  at \<open>i\<close> does not carry \<open>iid = i+1\<close>, the placeholder is spliced in at \<open>i\<close>, the body
  increments \<open>i\<close>, and the loop header increments it again: the next index examined is
  \<open>i+2\<close>.
\<close>

function fillGaps :: "nat \<Rightarrow> issue list \<Rightarrow> event list \<times> issue list" where
  "fillGaps i issues =
     (if i < length issues then
        (let expectedIdx = i + 1 in
         if iid (issues ! i) \<noteq> Some expectedIdx
         then (let (evs, r) = fillGaps (i + 1 + 1) (splice_js i placeholderItem issues)
               in (ConsoleLog (''Added placeholder issue for GitLab issue #'' @ showNat expectedIdx) # evs, r))
         else fillGaps (i + 1) issues)
      else ([], issues))"
  by pat_completeness auto
termination
  by (relation "measure (\<lambda>(i, issues). length issues - i)") (auto simp: splice_js_def)

declare fillGaps.simps [simp del]

section \<open>Issues\<close>

text \<open>
  The names that every object inherits from \<open>Object.prototype\<close>; reading one of them from an
  object that has no such key of its own gives the inherited member, which is truthy.
\<close>

definition objectPrototypeNames :: "string list" where
  "objectPrototypeNames =
     [''constructor'', ''hasOwnProperty'', ''isPrototypeOf'', ''propertyIsEnumerable'',
      ''toLocaleString'', ''toString'', ''valueOf'', ''__proto__'', ''__defineGetter__'',
      ''__defineSetter__'', ''__lookupGetter__'', ''__lookupSetter__'']"

text \<open>Truthiness of \<open>m[k]\<close> for an object \<open>m\<close> that is present.\<close>

definition truthyProp :: "(string \<times> string) list \<Rightarrow> string \<Rightarrow> bool" where
  "truthyProp kvs k =
     (case map_of kvs k of
        Some v \<Rightarrow> v \<noteq> []
      | None \<Rightarrow> k \<in> set objectPrototypeNames)"

text \<open>The assignee part of \<open>createIssue\<close>; the last branch refers to \<open>item\<close>, which no scope declares.\<close>

definition issueAssignees :: "settings \<Rightarrow> issue \<Rightarrow> error + string list option" where
  "issueAssignees st issue =
     (case assignee issue of
        None \<Rightarrow> Inr None
      | Some a \<Rightarrow>
          (if username a = github_username st then Inr (Some [github_username st])
           else
             (case usermap st of
                None \<Rightarrow> Inr (Some [])
              | Some kvs \<Rightarrow>
                  (if truthyProp kvs (username a)
                   then Inl (ReferenceError ''item is not defined'')
                   else Inr (Some [])))))"

text \<open>The milestone part: the number of the destination milestone with the same title.\<close>

definition issueMilestone :: "ghMilestone list \<Rightarrow> issue \<Rightarrow> nat option" where
  "issueMilestone milestones issue =
     (case milestone issue of
        None \<Rightarrow> None
      | Some t \<Rightarrow>
          (case find (\<lambda>m. ghm_title m = t) milestones of
             None \<Rightarrow> None
           | Some m \<Rightarrow> Some (ghm_number m)))"

text \<open>
  The labels and attachments part: \<open>props.labels\<close> is set when the issue has a \<open>labels\<close>
  field, and \<open>props.labels.push('has attachment')\<close> runs when the body contains
  \<open>/uploads/\<close>, whether or not \<open>props.labels\<close> was set.
\<close>

definition issueLabels :: "string \<Rightarrow> issue \<Rightarrow> error + string list option" where
  "issueLabels body issue =
     (let props_labels = labels issue in
      if body \<noteq> [] \<and> indexOf ''/uploads/'' body > - 1 then
        (case props_labels of
           None \<Rightarrow> Inl (TypeError ''Cannot read properties of undefined (reading push)'')
         | Some ls \<Rightarrow> Inr (Some (ls @ [''has attachment''])))
      else Inr props_labels)"

text \<open>
  \<open>createIssue\<close> up to its last line: the properties of the create call, or the exception
  thrown on the way.
\<close>

definition createIssueProps ::
  "settings \<Rightarrow> env \<Rightarrow> string \<Rightarrow> string \<Rightarrow> ghMilestone list \<Rightarrow> issue \<Rightarrow> error + request" where
  "createIssueProps st ev owner repo milestones issue =
     (case convertIssuesAndComments st (regexReplace ev) (toLocaleString ev) (description issue) (author issue)
             (created_at issue) of
        Inl e \<Rightarrow> Inl e
      | Inr bodyConverted \<Rightarrow>
          (case issueAssignees st issue of
             Inl e \<Rightarrow> Inl e
           | Inr assignees \<Rightarrow>
               (case issueLabels bodyConverted issue of
                  Inl e \<Rightarrow> Inl e
                | Inr lbls \<Rightarrow>
                    Inr (CreateIssue owner repo (trim (title issue)) bodyConverted
                           assignees (issueMilestone milestones issue) lbls))))"

text \<open>
  An \<open>async\<close> function is modelled by the events it performs and the way its promise
  settles.  \<open>createIssue\<close> returns the promise of \<open>github.issues.create(props)\<close>.
\<close>

type_synonym 'a async = "event list \<times> (error + 'a)"

definition createIssue ::
  "settings \<Rightarrow> env \<Rightarrow> string \<Rightarrow> string \<Rightarrow> ghMilestone list \<Rightarrow> issue \<Rightarrow> ghIssue async" where
  "createIssue st ev owner repo milestones issue =
     (case createIssueProps st ev owner repo milestones issue of
        Inl e \<Rightarrow> ([], Inl e)
      | Inr props \<Rightarrow> ([Call props], gh_issues_create ev props))"

text \<open>The condition under which \<open>createIssueComments\<close> does not transfer a note.\<close>

definition isStateChange :: "string \<Rightarrow> bool" where
  "isStateChange body =
     ((test [Lit ''Status changed to '', AnyStar] body
         \<and> \<not> test [Lit ''Status changed to closed by commit'', AnyStar] body)
      \<or> test [Lit ''changed milestone to '', AnyStar] body
      \<or> test [Lit ''Milestone changed to '', AnyStar] body
      \<or> test [Lit ''Reassigned to ''] body
      \<or> test [Lit ''added '', AnyStar, Lit '' labels''] body
      \<or> test [Lit ''Added ~'', AnyStar, Lit '' label''] body
      \<or> test [Lit ''mentioned in issue'', AnyStar] body)"

text \<open>
  The \<open>for (let note of notes)\<close> loop.  A rejected \<open>createComment\<close> is swallowed by
  \<open>.catch(x=>{})\<close>; an exception of \<open>convertIssuesAndComments\<close> leaves the loop.
\<close>

fun createNotes :: "settings \<Rightarrow> env \<Rightarrow> ghIssue \<Rightarrow> issueNote list \<Rightarrow> unit async" where
  "createNotes st ev ghIssue [] = ([], Inr ())"
| "createNotes st ev ghIssue (n # notes) =
     (if isStateChange (note_body n) then createNotes st ev ghIssue notes
      else
        (case convertIssuesAndComments st (regexReplace ev) (toLocaleString ev) (note_body n) (note_author n)
                (note_created_at n) of
           Inl e \<Rightarrow> ([], Inl e)
         | Inr bodyConverted \<Rightarrow>
             (let (evs, r) = createNotes st ev ghIssue notes
              in (Call (CreateComment (github_owner st) (github_repo st) (gh_number ghIssue) bodyConverted) # evs, r))))"

text \<open>
  \<open>createIssueComments\<close>.  The \<open>catch\<close> block prints \<open>issue.number\<close>, a field that source
  issues do not have.
\<close>

definition createIssueComments :: "settings \<Rightarrow> env \<Rightarrow> ghIssue \<Rightarrow> issue \<Rightarrow> unit async" where
  "createIssueComments st ev ghIssue issue =
     (case gl_issueNotes ev (gitlab_projectId st) (iid issue) of
        Inl err \<Rightarrow>
          ([ConsoleError ''Could not fetch notes for GitLab issue #undefined'', ConsoleErrorObj err], Inr ())
      | Inr notes \<Rightarrow>
          (if length notes = 0 then ([], Inr ())
           else
             (case createNotes st ev ghIssue (sort_key note_id notes) of
                (evs, Inl err) \<Rightarrow>
                  (evs @ [ConsoleError ''Could not fetch notes for GitLab issue #undefined'',
                          ConsoleErrorObj err], Inr ())
              | (evs, Inr u) \<Rightarrow> (evs, Inr ()))))"

definition updateIssueState :: "settings \<Rightarrow> env \<Rightarrow> ghIssue \<Rightarrow> issue \<Rightarrow> unit async" where
  "updateIssueState st ev ghIssue issue =
     (if state issue \<noteq> ''closed'' \<or> gh_state ghIssue = ''closed'' then ([], Inr ())
      else
        (let props = EditIssue (github_owner st) (github_repo st) (gh_number ghIssue) (state issue)
         in ([Call props], settle (gh_write ev props))))"

definition createIssueAndComments ::
  "settings \<Rightarrow> env \<Rightarrow> string \<Rightarrow> string \<Rightarrow> ghMilestone list \<Rightarrow> issue \<Rightarrow> unit async" where
  "createIssueAndComments st ev owner repo milestones issue =
     (case createIssue st ev owner repo milestones issue of
        (e1, Inl err) \<Rightarrow> (e1, Inl err)
      | (e1, Inr ghIssue) \<Rightarrow>
          (let (e2, r2) = createIssueComments st ev ghIssue issue;
               (e3, r3) = updateIssueState st ev ghIssue issue
           in (e1 @ e2 @ e3, r3)))"

text \<open>
  One round of the second loop of \<open>transferIssues\<close>.  In the \<open>else\<close> branch
  \<open>updateIssueState\<close> is called without \<open>await\<close>: its call is made, its outcome is not looked at.
\<close>

definition transferIssue ::
  "settings \<Rightarrow> env \<Rightarrow> ghMilestone list \<Rightarrow> ghIssue list \<Rightarrow> issue \<Rightarrow> event list" where
  "transferIssue st ev milestoneData ghIssues issue =
     (case find (\<lambda>i. trim (gh_title i) = trim (title issue)) ghIssues of
        None \<Rightarrow>
          ConsoleLog (''Creating: '' @ showIid (iid issue) @ '' - '' @ title issue) #
          (case createIssueAndComments st ev (github_owner st) (github_repo st) milestoneData issue of
             (evs, Inl err) \<Rightarrow>
               evs @ [ConsoleError (''Could not create issue: '' @ showIid (iid issue) @ '' - '' @ title issue),
                      ConsoleErrorObj err]
           | (evs, Inr u) \<Rightarrow> evs)
      | Some ghIssue \<Rightarrow>
          ConsoleLog (''Already exists: '' @ showIid (iid issue) @ '' - '' @ title issue) #
          fst (updateIssueState st ev ghIssue issue))"

text \<open>The comparison function \<open>(a, b) => a.id - b.id\<close> on fetched issues, which all have an id.\<close>

definition issueSortKey :: "issue \<Rightarrow> int" where
  "issueSortKey i = (case issue_id i of None \<Rightarrow> 0 | Some k \<Rightarrow> k)"

definition transferIssues :: "settings \<Rightarrow> env \<Rightarrow> string \<Rightarrow> string \<Rightarrow> nat \<Rightarrow> event list" where
  "transferIssues st ev owner repo projectId =
     (let milestoneData = gh_milestones ev;
          issues = sort_key issueSortKey (gl_issues ev projectId);
          ghIssues = gh_allIssues ev;
          (added, issues') = fillGaps 0 issues
      in inform (''Transferring '' @ showNat (length issues) @ '' Issues'')
         @ added
         @ concat (map (transferIssue st ev milestoneData ghIssues) issues'))"

section \<open>Milestones and labels\<close>

definition createMilestone :: "env \<Rightarrow> string \<Rightarrow> string \<Rightarrow> milestone \<Rightarrow> unit async" where
  "createMilestone ev owner repo m =
     (let ghMilestone =
            CreateMilestone owner repo (ms_title m) (ms_description m)
              (if ms_state m = ''active'' then ''open'' else ''closed'')
              (case ms_due_date m of
                 None \<Rightarrow> None
               | Some d \<Rightarrow> if d \<noteq> [] then Some (d @ ''T00:00:00Z'') else None)
      in ([Call ghMilestone], settle (gh_write ev ghMilestone)))"

text \<open>
  One round of the loop of \<open>transferMilestones\<close>.  The \<open>try\<close> block awaits the value of
  \<open>(() => { createMilestone(...); })(milestone)\<close>.  The arrow function has a block body
  without \<open>return\<close>: it calls \<open>createMilestone\<close>, drops the promise and returns \<open>undefined\<close>.
  A rejection of the dropped promise is left to the runtime and reaches no handler of the
  script.
\<close>

definition transferMilestone :: "settings \<Rightarrow> env \<Rightarrow> ghMilestone list \<Rightarrow> milestone \<Rightarrow> event list" where
  "transferMilestone st ev ghMilestones m =
     (case find (\<lambda>g. ghm_title g = ms_title m) ghMilestones of
        None \<Rightarrow>
          ConsoleLog (''Creating: '' @ ms_title m) #
          (let arrow = (\<lambda>u :: unit. (fst (createMilestone ev (github_owner st) (github_repo st) m),
                                        (Undefined :: unit awaitable)));
               (evs, returned) = arrow ()
           in case await returned of
                Inl err \<Rightarrow> evs @ [ConsoleError (''Could not create milestone '' @ ms_title m), ConsoleErrorObj err]
              | Inr u \<Rightarrow> evs)
      | Some g \<Rightarrow> [ConsoleLog (''Already exists: '' @ ms_title m)])"

definition transferMilestones :: "settings \<Rightarrow> env \<Rightarrow> nat \<Rightarrow> event list" where
  "transferMilestones st ev projectId =
     (let milestones = sort_key ms_id (gl_milestones ev projectId);
          ghMilestones = gh_milestones ev
      in inform ''Transferring Milestones''
         @ concat (map (transferMilestone st ev ghMilestones) milestones))"

text \<open>\<open>createLabel\<close> takes owner and repository from the settings, not from its parameters.\<close>

definition createLabel :: "settings \<Rightarrow> env \<Rightarrow> string \<Rightarrow> string \<Rightarrow> label \<Rightarrow> unit async" where
  "createLabel st ev owner repo l =
     (let ghLabel = CreateLabel (github_owner st) (github_repo st) (lb_name l) (drop 1 (lb_color l))
      in ([Call ghLabel], settle (gh_write ev ghLabel)))"

text \<open>
  One round of the loop of \<open>transferLabels\<close>.  \<open>ghLabels.find\<close> returns the name it found,
  and the empty name counts as not found.  The promise of \<open>createLabel\<close> gets an empty
  rejection handler and is dropped by the arrow function as above.
\<close>

definition transferLabel :: "settings \<Rightarrow> env \<Rightarrow> string list \<Rightarrow> bool \<Rightarrow> label \<Rightarrow> event list" where
  "transferLabel st ev ghLabels useLowerCase l0 =
     (let l = (if useLowerCase then l0\<lparr>lb_name := toLowerCase (lb_name l0)\<rparr> else l0)
      in if \<not> truthy (find (\<lambda>g. g = lb_name l) ghLabels) then
           ConsoleLog (''Creating: '' @ lb_name l) #
           (let arrow = (\<lambda>u :: unit. (fst (createLabel st ev (github_owner st) (github_repo st) l),
                                         (Undefined :: unit awaitable)));
                (evs, returned) = arrow ()
            in case await returned of
                 Inl err \<Rightarrow> evs @ [ConsoleError (''Could not create label '' @ lb_name l), ConsoleErrorObj err]
               | Inr u \<Rightarrow> evs)
         else [ConsoleLog (''Already exists: '' @ lb_name l)])"

definition transferLabels :: "settings \<Rightarrow> env \<Rightarrow> nat \<Rightarrow> bool \<Rightarrow> bool \<Rightarrow> event list" where
  "transferLabels st ev projectId attachmentLabel useLowerCase =
     (let labels0 = gl_labels ev projectId;
          ghLabels = gh_labelNames ev;
          labels1 = (if attachmentLabel
                     then labels0 @ [\<lparr>lb_name = ''has attachment'', lb_color = ''#fbca04''\<rparr>]
                     else labels0)
      in inform ''Transferring Labels''
         @ concat (map (transferLabel st ev ghLabels useLowerCase) labels1))"

section \<open>Merge requests\<close>

definition showSha :: "string option \<Rightarrow> string" where
  "showSha v = (case v of None \<Rightarrow> ''null'' | Some x \<Rightarrow> x)"

definition message :: "error \<Rightarrow> string" where
  "message e = (case e of ReferenceError m \<Rightarrow> m | TypeError m \<Rightarrow> m | ApiError m \<Rightarrow> m)"

text \<open>\<open>createGHBranch\<close> catches every rejection of the call, so its own promise never rejects.\<close>

definition createGHBranch :: "env \<Rightarrow> string \<Rightarrow> string \<Rightarrow> string \<Rightarrow> string option \<Rightarrow> unit async" where
  "createGHBranch ev owner repo name sha =
     (let ref = ''refs/heads/'' @ name;
          req = CreateReference owner repo ref sha
      in case gh_write ev req of
           None \<Rightarrow> ([Call req], Inr ())
         | Some err \<Rightarrow>
             (if indexOf ''Reference already exists'' (message err) > 0
              then ([Call req, ConsoleLog (''Branch '' @ [CHR 0x27] @ name @ [CHR 0x27] @ '' already exists!'')], Inr ())
              else ([Call req,
                     ConsoleError (''Could not create branch '' @ [CHR 0x27] @ name @ [CHR 0x27] @ '' at '' @ showSha sha),
                     ConsoleErrorObj err], Inr ())))"

definition createPR :: "env \<Rightarrow> string \<Rightarrow> string \<Rightarrow> mergeRequest \<Rightarrow> string \<Rightarrow> string \<Rightarrow> unit async" where
  "createPR ev owner repo mr head base =
     (let props = CreatePullRequest owner repo (mr_title mr) (mr_description mr) head base
      in ([Call props], settle (gh_write ev props)))"

definition createPRAndComments :: "settings \<Rightarrow> env \<Rightarrow> string \<Rightarrow> string \<Rightarrow> mergeRequest \<Rightarrow> unit async" where
  "createPRAndComments st ev owner repo mr =
     (if mr_iid mr \<noteq> 1 then ([], Inr ())
      else if mr_state mr \<noteq> ''merged'' \<and> mr_state mr \<noteq> ''open'' then ([], Inr ())
      else
        (let baseRef = ''MR'' @ showNat (mr_iid mr) @ ''-'' @ mr_target_branch mr @ ''-base'';
             headRef = ''MR'' @ showNat (mr_iid mr) @ ''-'' @ mr_source_branch mr @ ''-head'';
             (e1, headBranch) = createGHBranch ev owner repo headRef (mr_sha mr)
         in case gl_commit ev (gitlab_projectId st) (mr_merge_commit_sha mr) of
              Inl err \<Rightarrow> (e1, Inl err)
            | Inr parent_ids \<Rightarrow>
                (let parentCommits = filter (\<lambda>sha. Some sha \<noteq> mr_sha mr) parent_ids;
                     parentCommit = (if length parentCommits = 1 then Some (parentCommits ! 0) else None);
                     (e2, baseBranch) = createGHBranch ev owner repo baseRef parentCommit;
                     (e3, ghPRData) = createPR ev owner repo mr headRef baseRef
                 in (e1 @ e2 @ e3, ghPRData))))"

text \<open>\<open>getAllGHPullRequests\<close>: the issues of the destination that are pull requests.\<close>

definition getAllGHPullRequests :: "env \<Rightarrow> ghPullRequest list" where
  "getAllGHPullRequests ev =
     foldl (\<lambda>arr x. if gh_pull_request x
                     then arr @ [\<lparr>pr_number = gh_number x, pr_title = gh_title x\<rparr>]
                     else arr)
           [] (gh_allIssues ev)"

definition transferMergeRequest :: "settings \<Rightarrow> env \<Rightarrow> ghPullRequest list \<Rightarrow> mergeRequest \<Rightarrow> event list" where
  "transferMergeRequest st ev ghPullRequests mr =
     (case find (\<lambda>pr. pr_title pr = mr_title mr) ghPullRequests of
        None \<Rightarrow>
          ConsoleLog (''Creating PR from !'' @ showNat (mr_iid mr) @ '' - '' @ mr_title mr) #
          (case createPRAndComments st ev (github_owner st) (github_repo st) mr of
             (evs, Inl err) \<Rightarrow>
               evs @ [ConsoleError (''Could not create PR from !'' @ showNat (mr_iid mr) @ '' - '' @ mr_title mr),
                      ConsoleErrorObj err]
           | (evs, Inr u) \<Rightarrow> evs)
      | Some ghPR \<Rightarrow>
          [ConsoleLog (''Already exists as PR'' @ showNat (pr_number ghPR) @ '' ('' @ showNat (mr_iid mr)
                       @ '' - '' @ mr_title mr @ '')'')])"

text \<open>
  \<open>transferMergeRequests\<close>.  The listing call of the source is made with the literal
  \<open>{projectId: 188}\<close>; the parameter \<open>projectId\<close> is not read.
\<close>

definition transferMergeRequests :: "settings \<Rightarrow> env \<Rightarrow> string \<Rightarrow> string \<Rightarrow> nat \<Rightarrow> event list" where
  "transferMergeRequests st ev owner repo projectId =
     (let mergeRequests = sort_key mr_id (gl_mergeRequests ev 188);
          ghPullRequests = getAllGHPullRequests ev
      in inform (''Transferring '' @ showNat (length mergeRequests) @ '' Merge Requests'')
         @ concat (map (transferMergeRequest st ev ghPullRequests) mergeRequests))"

section \<open>The whole run\<close>

text \<open>\<open>migrate\<close>: the four migrators in their fixed order, between the two rate-limit banners.\<close>

definition rateLimitLine :: "nat \<times> nat \<Rightarrow> event" where
  "rateLimitLine rate =
     ConsoleLog (''  Rate Limit: '' @ showNat (fst rate) @ '' / '' @ showNat (snd rate))"

definition migrate :: "settings \<Rightarrow> env \<Rightarrow> event list" where
  "migrate st ev =
     [ConsoleLog ''===================================='',
      ConsoleLog ''Beginning GitLab to GitHub Migration'',
      rateLimitLine (gh_rateLimit_before ev),
      ConsoleLog ''===================================='']
     @ transferMilestones st ev (gitlab_projectId st)
     @ transferLabels st ev (gitlab_projectId st) True (useLowerCaseLabels st)
     @ transferIssues st ev (github_owner st) (github_repo st) (gitlab_projectId st)
     @ transferMergeRequests st ev (github_owner st) (github_repo st) (gitlab_projectId st)
     @ [ConsoleLog ([CHR 0x0A, CHR 0x0A] @ ''Transfer complete!'' @ [CHR 0x0A, CHR 0x0A]),
        rateLimitLine (gh_rateLimit_after ev)]"

section \<open>Concrete configurations and worlds\<close>

text \<open>A configuration with one mapped user and one mapped project.\<close>

definition exampleSettings :: settings where
  "exampleSettings =
     \<lparr> gitlab_projectId = 7, github_owner = ''Org'', github_repo = ''Project'',
       github_username = ''migrator'',
       usermap = Some [(''alice'', ''bob'')],
       projectmap = Some [(''group/project'', ''Org/Project'')],
       useLowerCaseLabels = True \<rparr>"

text \<open>A world with empty projects on both sides in which every call succeeds.\<close>

definition quietEnv :: env where
  "quietEnv =
     \<lparr> toLocaleString = (\<lambda>d. d),
       regexReplace = (\<lambda>pattern cb s. Inr s),
       gl_milestones = (\<lambda>p. []), gl_labels = (\<lambda>p. []), gl_issues = (\<lambda>p. []),
       gl_mergeRequests = (\<lambda>p. []),
       gl_issueNotes = (\<lambda>p i. Inr []),
       gl_commit = (\<lambda>p sha. Inr []),
       gh_milestones = [], gh_labelNames = [], gh_allIssues = [],
       gh_issues_create = (\<lambda>r. Inr \<lparr>gh_number = 1, gh_title = [], gh_state = ''open'', gh_pull_request = False\<rparr>),
       gh_write = (\<lambda>r. None),
       gh_rateLimit_before = (5000, 5000), gh_rateLimit_after = (5000, 5000) \<rparr>"

text \<open>The same world, except that the destination rejects every write.\<close>

definition rejectingEnv :: env where
  "rejectingEnv =
     quietEnv\<lparr> gh_issues_create := (\<lambda>r. Inl (ApiError ''Validation Failed'')),
               gh_write := (\<lambda>r. Some (ApiError ''Validation Failed'')) \<rparr>"

text \<open>
  The numbering that the gap-filling pass is meant to establish: the item at index \<open>i\<close> is
  the placeholder or carries the sequence number \<open>i + 1\<close>.
\<close>

definition numbered :: "issue list \<Rightarrow> bool" where
  "numbered issues =
     list_all (\<lambda>(i, x). x = placeholderItem \<or> iid x = Some (i + 1)) (enumerate 0 issues)"

text \<open>
  Source issues in ascending order whose sequence numbers start at 1 or 2 and go up in steps
  of 1 or 2, so that no gap is wider than one (\<open>prev\<close> is the number before the first).
\<close>

fun smallGaps :: "nat \<Rightarrow> issue list \<Rightarrow> bool" where
  "smallGaps prev [] = True"
| "smallGaps prev (x # xs) =
     (case iid x of
        None \<Rightarrow> False
      | Some n \<Rightarrow> (n = prev + 1 \<or> n = prev + 2) \<and> smallGaps n xs)"

text \<open>Every state edit in a trace sets the state \<open>closed\<close>.\<close>

definition closesOnly :: "event \<Rightarrow> bool" where
  "closesOnly e = (case e of Call (EditIssue owner repo n s) \<Rightarrow> s = ''closed'' | _ \<Rightarrow> True)"

text \<open>Concrete issues on both sides.\<close>

definition closedSource :: issue where
  "closedSource = (sourceIssue 5 ''Crash on start'')\<lparr>state := ''closed''\<rparr>"

definition openDestination :: ghIssue where
  "openDestination = \<lparr>gh_number = 5, gh_title = ''Crash on start'', gh_state = ''open'', gh_pull_request = False\<rparr>"

text \<open>A merged merge request whose merge commit has the head commit and one other parent.\<close>

definition mergedMR :: mergeRequest where
  "mergedMR =
     \<lparr> mr_id = 10, mr_iid = 1, mr_title = ''Add parser'', mr_description = ''Adds the parser'',
       mr_state = ''merged'', mr_source_branch = ''feature'', mr_target_branch = ''master'',
       mr_sha = Some ''aaa'', mr_merge_commit_sha = Some ''ccc'' \<rparr>"

definition mergeEnv :: env where
  "mergeEnv = quietEnv\<lparr> gl_commit := (\<lambda>p sha. Inr [''bbb'', ''aaa'']) \<rparr>"

text \<open>A world in which project 7 has one merge request and every other project has none.\<close>

definition project7Env :: env where
  "project7Env = mergeEnv\<lparr> gl_mergeRequests := (\<lambda>p. if p = 7 then [mergedMR] else []) \<rparr>"

text \<open>Source items for concrete runs.\<close>

definition assignedIssue :: issue where
  "assignedIssue = (sourceIssue 3 ''Fix login'')\<lparr>assignee := Some \<lparr>username = ''alice''\<rparr>\<rparr>"

definition attachmentItem :: issue where
  "attachmentItem = placeholderItem\<lparr>description := ''see /uploads/avatar.png''\<rparr>"

definition milestoneV1 :: milestone where
  "milestoneV1 =
     \<lparr> ms_id = 1, ms_title = ''v1'', ms_description = ''first release'', ms_state = ''active'',
       ms_due_date = None \<rparr>"

definition labelBug :: label where
  "labelBug = \<lparr>lb_name = ''Bug'', lb_color = ''#ff0000''\<rparr>"



text \<open>A source milestone whose title has a leading space, and a destination milestone without it.\<close>

definition spacedV1 :: milestone where
  "spacedV1 = milestoneV1\<lparr>ms_title := '' v1''\<rparr>"

definition destinationV1 :: ghMilestone where
  "destinationV1 = \<lparr>ghm_number = 1, ghm_title = ''v1''\<rparr>"






section \<open>Properties\<close>

subsection \<open>Gap filling\<close>

text \<open>
  Claim C1.  The gap-filling pass is meant to leave, at every index \<open>i\<close>, the real issue with
  sequence number \<open>i + 1\<close> or a placeholder, for gaps of any width.  For the sequence
  numbers 1, 2, 4, 5 it inserts one placeholder at the third position.  For the sequence
  numbers 1, 4 (a gap of width two) it inserts one placeholder only and leaves issue 4 at the
  third position, so the result is not numbered like the source.
\<close>

theorem C1_fillGaps_wide_gap:
  "map iid (snd (fillGaps 0 [sourceIssue 1 ''a'', sourceIssue 2 ''b'', sourceIssue 4 ''d'', sourceIssue 5 ''e'']))
     = [Some 1, Some 2, None, Some 4, Some 5]
   \<and> snd (fillGaps 0 [sourceIssue 1 ''a'', sourceIssue 4 ''d''])
     = [sourceIssue 1 ''a'', placeholderItem, sourceIssue 4 ''d'']
   \<and> \<not> numbered [sourceIssue 1 ''a'', placeholderItem, sourceIssue 4 ''d'']"
  by (simp add: fillGaps.simps splice_js_def sourceIssue_def placeholderItem_def numbered_def)

text \<open>
  What the pass does achieve: when no gap is wider than one, the result is numbered like the
  source.
\<close>

lemma numbered_iff:
  "numbered xs \<longleftrightarrow> (\<forall>k<length xs. xs ! k = placeholderItem \<or> iid (xs ! k) = Some (k + 1))"
  by (simp add: numbered_def list_all_length nth_enumerate_eq)

lemma fillGaps_numbered_aux:
  "i \<le> length xs \<Longrightarrow>
   (\<forall>k<i. xs ! k = placeholderItem \<or> iid (xs ! k) = Some (k + 1)) \<Longrightarrow>
   smallGaps i (drop i xs) \<Longrightarrow>
   numbered (snd (fillGaps i xs))"
proof (induction i xs rule: fillGaps.induct)
  case (1 i xs)
  show ?case
  proof (cases "i < length xs")
    case False
    with "1.prems" have "i = length xs" by simp
    with "1.prems"(2) False show ?thesis
      by (subst fillGaps.simps) (simp add: numbered_iff)
  next
    case True
    then have d: "drop i xs = xs ! i # drop (Suc i) xs"
      by (simp add: Cons_nth_drop_Suc)
    with "1.prems"(3) obtain n where n: "iid (xs ! i) = Some n" "n = i + 1 \<or> n = i + 2"
      and rest: "smallGaps n (drop (Suc i) xs)"
      by (auto split: option.splits)
    show ?thesis
    proof (cases "n = i + 1")
      case same: True
      have pre: "\<forall>k<i + 1. xs ! k = placeholderItem \<or> iid (xs ! k) = Some (k + 1)"
        using "1.prems"(2) n(1) same by (auto simp: less_Suc_eq)
      have "numbered (snd (fillGaps (i + 1) xs))"
        using "1.IH"(2) [OF True refl] n(1) same True pre rest by simp
      with True n(1) same show ?thesis
        by (subst fillGaps.simps) simp
    next
      case False
      with n(2) have n2: "n = i + 2" by simp
      let ?ys = "splice_js i placeholderItem xs"
      have len: "i + 1 + 1 \<le> length ?ys"
        using True by (simp add: splice_js_def)
      have nth_lt: "?ys ! k = xs ! k" if "k < i" for k
        using that True by (simp add: splice_js_def nth_append)
      have nth_i: "?ys ! i = placeholderItem"
        using True by (simp add: splice_js_def nth_append)
      have nth_Suc: "?ys ! (i + 1) = xs ! i"
        using True by (simp add: splice_js_def nth_append d)
      have pre: "\<forall>k<i + 1 + 1. ?ys ! k = placeholderItem \<or> iid (?ys ! k) = Some (k + 1)"
      proof (intro allI impI)
        fix k assume "k < i + 1 + 1"
        then consider "k < i" | "k = i" | "k = i + 1" by linarith
        then show "?ys ! k = placeholderItem \<or> iid (?ys ! k) = Some (k + 1)"
        proof cases
          case 1
          with "1.prems"(2) nth_lt show ?thesis by simp
        next
          case 2
          with nth_i show ?thesis by simp
        next
          case 3
          with nth_Suc n(1) n2 show ?thesis by simp
        qed
      qed
      have dr: "drop (i + 1 + 1) ?ys = drop (Suc i) xs"
        using True by (simp add: splice_js_def)
      have neq: "iid (xs ! i) \<noteq> Some (i + 1)"
        using n(1) n2 by simp
      have "numbered (snd (fillGaps (i + 1 + 1) ?ys))"
        using "1.IH"(1) [OF True refl _ len pre] neq rest n2 dr by simp
      with True neq show ?thesis
        by (subst fillGaps.simps) (auto simp: Let_def split: prod.splits)
    qed
  qed
qed

lemma fillGaps_numbered:
  "smallGaps 0 issues \<Longrightarrow> numbered (snd (fillGaps 0 issues))"
  by (rule fillGaps_numbered_aux) simp_all

subsection \<open>State edits\<close>

lemma closesOnly_updateIssueState:
  "updateIssueState st ev g i = (evs, r) \<Longrightarrow> list_all closesOnly evs"
  by (auto simp: updateIssueState_def closesOnly_def Let_def split: if_splits)

lemma closesOnly_createNotes:
  "createNotes st ev g ns = (evs, r) \<Longrightarrow> list_all closesOnly evs"
  by (induction ns arbitrary: evs r) (auto simp: closesOnly_def split: sum.splits prod.splits if_splits)

lemma closesOnly_createIssueComments:
  "createIssueComments st ev g i = (evs, r) \<Longrightarrow> list_all closesOnly evs"
  by (auto simp: createIssueComments_def closesOnly_def 
           split: sum.splits prod.splits if_splits dest: closesOnly_createNotes)

lemma closesOnly_createIssue:
  "createIssue st ev ow rp ms i = (evs, r) \<Longrightarrow> list_all closesOnly evs"
  by (auto simp: createIssue_def createIssueProps_def closesOnly_def split: sum.splits)

lemma closesOnly_createIssueAndComments:
  "createIssueAndComments st ev ow rp ms i = (evs, r) \<Longrightarrow> list_all closesOnly evs"
  by (auto simp: createIssueAndComments_def split: sum.splits prod.splits
           dest: closesOnly_createIssue closesOnly_createIssueComments closesOnly_updateIssueState)

lemma closesOnly_transferIssue:
  "list_all closesOnly (transferIssue st ev ms ghs i)"
proof (cases "find (\<lambda>g. trim (gh_title g) = trim (title i)) ghs")
  case None
  obtain evs r where c: "createIssueAndComments st ev (github_owner st) (github_repo st) ms i = (evs, r)"
    by (cases "createIssueAndComments st ev (github_owner st) (github_repo st) ms i")
  from closesOnly_createIssueAndComments [OF c] None c show ?thesis
    by (cases r) (simp_all add: transferIssue_def closesOnly_def)
next
  case (Some g)
  obtain evs r where u: "updateIssueState st ev g i = (evs, r)"
    by (cases "updateIssueState st ev g i")
  from closesOnly_updateIssueState [OF u] Some u show ?thesis
    by (simp add: transferIssue_def closesOnly_def)
qed

lemma closesOnly_inform: "list_all closesOnly (inform msg)"
  by (simp add: inform_def closesOnly_def)

lemma closesOnly_concat_map:
  "(\<And>x. list_all closesOnly (f x)) \<Longrightarrow> list_all closesOnly (concat (map f xs))"
  by (induction xs) auto

lemma closesOnly_fillGaps:
  "fillGaps i issues = (evs, r) \<Longrightarrow> list_all closesOnly evs"
proof (induction i issues arbitrary: evs r rule: fillGaps.induct)
  case (1 i issues)
  from "1.prems" show ?case
    by (subst (asm) fillGaps.simps)
       (auto simp: Let_def closesOnly_def split: if_splits prod.splits dest: "1.IH")
qed

lemma closesOnly_transferIssues:
  "list_all closesOnly (transferIssues st ev ow rp p)"
  by (auto simp: transferIssues_def Let_def closesOnly_inform closesOnly_concat_map
        closesOnly_transferIssue split: prod.splits dest: closesOnly_fillGaps)

lemma closesOnly_transferMilestones:
  "list_all closesOnly (transferMilestones st ev p)"
proof -
  have "list_all closesOnly (transferMilestone st ev ghs m)" for ghs m
    by (auto simp: transferMilestone_def createMilestone_def await_def closesOnly_def Let_def
             split: option.splits)
  then show ?thesis
    by (simp add: transferMilestones_def Let_def closesOnly_inform closesOnly_concat_map)
qed

lemma closesOnly_transferLabels:
  "list_all closesOnly (transferLabels st ev p a u)"
proof -
  have "list_all closesOnly (transferLabel st ev ghs u l)" for ghs l
    by (auto simp: transferLabel_def createLabel_def await_def closesOnly_def Let_def)
  then show ?thesis
    by (simp add: transferLabels_def Let_def closesOnly_inform closesOnly_concat_map)
qed

lemma closesOnly_createGHBranch:
  "createGHBranch ev ow rp name sha = (evs, r) \<Longrightarrow> list_all closesOnly evs"
  by (auto simp: createGHBranch_def closesOnly_def Let_def split: option.splits if_splits)

lemma closesOnly_createPRAndComments:
  "createPRAndComments st ev ow rp mr = (evs, r) \<Longrightarrow> list_all closesOnly evs"
  by (auto simp: createPRAndComments_def createPR_def Let_def closesOnly_def
           split: if_splits sum.splits prod.splits dest: closesOnly_createGHBranch)

lemma closesOnly_transferMergeRequests:
  "list_all closesOnly (transferMergeRequests st ev ow rp p)"
proof -
  have "list_all closesOnly (transferMergeRequest st ev prs mr)" for prs mr
    by (auto simp: transferMergeRequest_def closesOnly_def split: option.splits sum.splits prod.splits
             dest: closesOnly_createPRAndComments)
  then show ?thesis
    by (simp add: transferMergeRequests_def Let_def closesOnly_inform closesOnly_concat_map)
qed

lemma closesOnly_migrate: "list_all closesOnly (migrate st ev)"
  by (simp add: migrate_def closesOnly_transferMilestones closesOnly_transferLabels
        closesOnly_transferIssues closesOnly_transferMergeRequests)
     (simp add: closesOnly_def rateLimitLine_def)

text \<open>
  Claim C9.  \<open>updateIssueState\<close> makes an edit exactly when the source issue is closed and the
  destination issue is not; the edit sets the state \<open>closed\<close>; and every state edit of a
  whole run sets the state \<open>closed\<close>, so that no run reopens a destination issue and an open
  destination issue matched to an open source issue is not edited.
\<close>

theorem C9_updateIssueState:
  "(fst (updateIssueState st ev ghIssue issue) \<noteq> [])
     = (state issue = ''closed'' \<and> gh_state ghIssue \<noteq> ''closed'')
   \<and> (\<forall>e \<in> set (fst (updateIssueState st ev ghIssue issue)).
         e = Call (EditIssue (github_owner st) (github_repo st) (gh_number ghIssue) ''closed''))
   \<and> (\<forall>owner repo n s. Call (EditIssue owner repo n s) \<in> set (migrate st ev) \<longrightarrow> s = ''closed'')"
proof (intro conjI allI impI)
  show "(fst (updateIssueState st ev ghIssue issue) \<noteq> [])
          = (state issue = ''closed'' \<and> gh_state ghIssue \<noteq> ''closed'')"
    by (simp add: updateIssueState_def Let_def)
  show "\<forall>e \<in> set (fst (updateIssueState st ev ghIssue issue)).
          e = Call (EditIssue (github_owner st) (github_repo st) (gh_number ghIssue) ''closed'')"
    by (simp add: updateIssueState_def Let_def)
next
  fix owner repo n s
  assume "Call (EditIssue owner repo n s) \<in> set (migrate st ev)"
  with closesOnly_migrate [of st ev] have "closesOnly (Call (EditIssue owner repo n s))"
    by (simp add: list_all_iff)
  then show "s = ''closed''" by (simp add: closesOnly_def)
qed

theorem C9_updateIssueState_witness:
  "state closedSource = ''closed'' \<and> gh_state openDestination \<noteq> ''closed''
   \<and> fst (updateIssueState exampleSettings quietEnv openDestination closedSource)
       = [Call (EditIssue ''Org'' ''Project'' 5 ''closed'')]
   \<and> Call (EditIssue ''Org'' ''Project'' 5 ''closed'')
       \<in> set (fst (updateIssueState exampleSettings quietEnv openDestination closedSource))"
  using C9_updateIssueState [of exampleSettings quietEnv openDestination closedSource]
  by (simp add: updateIssueState_def Let_def closedSource_def openDestination_def sourceIssue_def
        exampleSettings_def)

subsection \<open>Evaluation helpers\<close>

lemma showNat_0: "showNat 0 = ''0''"
  by code_simp

lemma showNat_1: "showNat 1 = ''1''"
  by code_simp

lemma showNat_Suc_0: "showNat (Suc 0) = ''1''"
  using showNat_1 by simp

lemma toLowerCase_Bug: "toLowerCase ''Bug'' = ''bug''"
  by code_simp

lemma literalKeys_exampleSettings: "literalKeys exampleSettings"
  by code_simp


subsection \<open>Merge requests\<close>

lemma createPRAndComments_skips:
  "mr_iid mr \<noteq> 1 \<or> (mr_state mr \<noteq> ''merged'' \<and> mr_state mr \<noteq> ''open'')
   \<Longrightarrow> createPRAndComments st ev owner repo mr = ([], Inr ())"
  by (auto simp: createPRAndComments_def)

lemma createGHBranch_calls:
  "\<exists>rest. createGHBranch ev owner repo name sha
            = (Call (CreateReference owner repo (''refs/heads/'' @ name) sha) # rest, Inr ())"
  by (cases "gh_write ev (CreateReference owner repo (''refs/heads/'' @ name) sha)")
     (simp_all add: createGHBranch_def Let_def)

lemma createPRAndComments_head_first:
  assumes "mr_iid mr = 1" and "mr_state mr = ''merged'' \<or> mr_state mr = ''open''"
  shows "\<exists>evs. fst (createPRAndComments st ev owner repo mr)
           = Call (CreateReference owner repo (''refs/heads/MR1-'' @ mr_source_branch mr @ ''-head'')
                     (mr_sha mr)) # evs"
proof -
  let ?head = "''MR'' @ showNat (mr_iid mr) @ ''-'' @ mr_source_branch mr @ ''-head''"
  from createGHBranch_calls [of ev owner repo ?head "mr_sha mr"] obtain rest
    where h: "createGHBranch ev owner repo ?head (mr_sha mr)
                = (Call (CreateReference owner repo (''refs/heads/'' @ ?head) (mr_sha mr)) # rest, Inr ())"
    by blast
  show ?thesis
  proof (cases "gl_commit ev (gitlab_projectId st) (mr_merge_commit_sha mr)")
    case (Inl err)
    with assms h show ?thesis
      by (auto simp: createPRAndComments_def showNat_Suc_0 Let_def)
  next
    case (Inr parent_ids)
    with assms h show ?thesis
      by (auto simp: createPRAndComments_def showNat_Suc_0 Let_def split: prod.splits)
  qed
qed

text \<open>
  Claim C2.  Every merge request in state \<open>merged\<close> or \<open>open\<close> is meant to get its head
  branch, its base branch and its pull request.  \<open>createPRAndComments\<close> returns at its first
  line for every merge request whose sequence number is not 1: a merged merge request with
  sequence number 2 gets no branch and no pull request, in any world.  The merge request with
  sequence number 1 gets the head branch at its head commit, the base branch at the other
  parent of the merge commit, and the pull request.
\<close>

theorem C2_createPRAndComments_only_first:
  "createPRAndComments st ev owner repo (mr\<lparr>mr_iid := 2, mr_state := ''merged''\<rparr>) = ([], Inr ())
   \<and> createPRAndComments exampleSettings mergeEnv ''Org'' ''Project'' mergedMR
       = ([Call (CreateReference ''Org'' ''Project'' ''refs/heads/MR1-feature-head'' (Some ''aaa'')),
           Call (CreateReference ''Org'' ''Project'' ''refs/heads/MR1-master-base'' (Some ''bbb'')),
           Call (CreatePullRequest ''Org'' ''Project'' ''Add parser'' ''Adds the parser''
                   ''MR1-feature-head'' ''MR1-master-base'')], Inr ())"
  by (simp add: createPRAndComments_def createGHBranch_def createPR_def mergedMR_def mergeEnv_def
        quietEnv_def exampleSettings_def settle_def showNat_Suc_0 Let_def)

text \<open>
  Claim C3.  \<open>transferMergeRequests\<close> is meant to list the merge requests of the project it is
  given.  Its result does not depend on that parameter: it always lists project 188.  Called
  for project 7, which has one merge request, in a world where project 188 has none, it
  transfers nothing.
\<close>

theorem C3_transferMergeRequests_project:
  "transferMergeRequests st ev owner repo projectId = transferMergeRequests st ev owner repo 188
   \<and> gl_mergeRequests project7Env 7 = [mergedMR]
   \<and> transferMergeRequests exampleSettings project7Env ''Org'' ''Project'' 7
       = inform ''Transferring 0 Merge Requests''"
  by (simp add: transferMergeRequests_def project7Env_def Let_def showNat_0)

subsection \<open>Text transformer\<close>

text \<open>The pattern text that the source compiles is its pieces joined by \<open>|\<close>.\<close>

lemma append_at: "(@) ''@'' = (#) CHR ''@''"
  by (rule ext) simp

lemma join_append:
  "xs \<noteq> [] \<Longrightarrow> ys \<noteq> [] \<Longrightarrow> join (xs @ ys) sep = join xs sep @ sep @ join ys sep"
  by (induction xs sep rule: join.induct) (auto simp: neq_Nil_conv)

lemma join_at:
  "ks \<noteq> [] \<Longrightarrow> ''@'' @ join ks ''|@'' = join (map (\<lambda>k. ''@'' @ k) ks) ''|''"
  by (induction ks "''|@''" rule: join.induct) auto

lemma join_hash:
  "ks \<noteq> [] \<Longrightarrow> join ks ''#|'' @ ''#'' = join (map (\<lambda>k. k @ ''#'') ks) ''|''"
  by (induction ks "''#|''" rule: join.induct) auto

lemma reString_pieces: "reString st = join (generateUserProjectRe st) ''|''"
proof (cases "nullOrEmpty (usermap st)")
  case True
  then show ?thesis
    by (cases "nullOrEmpty (projectmap st)")
       (auto simp: reString_def generateUserProjectRe_def nullOrEmpty_def join_hash)
next
  case False
  then have u: "objectKeys (usermap st) \<noteq> []" by (auto simp: nullOrEmpty_def)
  show ?thesis
  proof (cases "nullOrEmpty (projectmap st)")
    case True
    with False join_at [OF u] show ?thesis
      by (simp add: reString_def generateUserProjectRe_def append_at)
  next
    case p: False
    then have k: "objectKeys (projectmap st) \<noteq> []" by (auto simp: nullOrEmpty_def)
    from False p have "reString st
        = (''@'' @ join (objectKeys (usermap st)) ''|@'') @ ''|''
          @ (join (objectKeys (projectmap st)) ''#|'' @ ''#'')"
      by (simp add: reString_def Let_def)
    also have "\<dots> = join (map (\<lambda>k. ''@'' @ k) (objectKeys (usermap st))) ''|'' @ ''|''
          @ join (map (\<lambda>k. k @ ''#'') (objectKeys (projectmap st))) ''|''"
      unfolding join_at [OF u] join_hash [OF k] ..
    also have "\<dots> = join (map (\<lambda>k. ''@'' @ k) (objectKeys (usermap st))
                          @ map (\<lambda>k. k @ ''#'') (objectKeys (projectmap st))) ''|''"
      using u k by (simp add: join_append)
    finally show ?thesis
      using False p by (simp add: generateUserProjectRe_def append_at)
  qed
qed

text \<open>
  Claim C4.  With a non-empty user map, \<open>convertIssuesAndComments\<close> is meant to return the
  text with mapped mentions and project references rewritten.  For the body
  \<open>hi @alice, see group/project#12\<close> the rewriting gives \<open>hi @bob, see Org/Project#12\<close>, and
  the function returns the body as it was.
\<close>

theorem C4_convert_returns_unmapped:
  "convertIssuesAndComments exampleSettings rx fmt ''hi @alice, see group/project#12'' None None
     = Inr ''hi @alice, see group/project#12''
   \<and> replace (generateUserProjectRe exampleSettings) (rewriteMatch exampleSettings)
        ''hi @alice, see group/project#12''
     = Inr ''hi @bob, see Org/Project#12''"
  using literalKeys_exampleSettings
  by (simp add: convertIssuesAndComments_def addMigrationLine_def generateUserProjectRe_def
        rewriteMatch_def exampleSettings_def nullOrEmpty_def objectKeys_def getProp_def toStr_def
        suffix_to_prefix Let_def)

subsection \<open>Creating issues\<close>

lemma issueAssignees_self:
  "assignee issue = Some a \<Longrightarrow> username a = github_username st
   \<Longrightarrow> issueAssignees st issue = Inr (Some [github_username st])"
  by (simp add: issueAssignees_def)

lemma issueAssignees_unmapped:
  "assignee issue = Some a \<Longrightarrow> username a \<noteq> github_username st
   \<Longrightarrow> usermap st = Some kvs \<Longrightarrow> map_of kvs (username a) = None
   \<Longrightarrow> username a \<notin> set objectPrototypeNames
   \<Longrightarrow> issueAssignees st issue = Inr (Some [])"
  by (simp add: issueAssignees_def truthyProp_def)

lemma issueAssignees_inherited:
  "assignee issue = Some a \<Longrightarrow> username a \<noteq> github_username st
   \<Longrightarrow> usermap st = Some kvs \<Longrightarrow> map_of kvs (username a) = None
   \<Longrightarrow> username a \<in> set objectPrototypeNames
   \<Longrightarrow> issueAssignees st issue = Inl (ReferenceError ''item is not defined'')"
  by (simp add: issueAssignees_def truthyProp_def)

lemma issueAssignees_mapped:
  "assignee issue = Some a \<Longrightarrow> username a \<noteq> github_username st
   \<Longrightarrow> usermap st = Some kvs \<Longrightarrow> map_of kvs (username a) = Some name \<Longrightarrow> name \<noteq> []
   \<Longrightarrow> issueAssignees st issue = Inl (ReferenceError ''item is not defined'')"
  by (simp add: issueAssignees_def truthyProp_def)

text \<open>
  Claim C5.  An issue whose assignee is a key of the user map is meant to be created with
  the mapped name as its assignee.  \<open>createIssue\<close> throws a reference error at that step and
  makes no create call.
\<close>

theorem C5_createIssue_mapped_assignee:
  "createIssue exampleSettings ev owner repo milestones assignedIssue
     = ([], Inl (ReferenceError ''item is not defined''))"
  using literalKeys_exampleSettings
  by (simp add: createIssue_def createIssueProps_def issueAssignees_def assignedIssue_def
        sourceIssue_def exampleSettings_def truthyProp_def
        convertIssuesAndComments_def addMigrationLine_def generateUserProjectRe_def
        nullOrEmpty_def objectKeys_def)

subsection \<open>Milestones and labels\<close>

text \<open>
  Claim C7.  A rejected creation of a milestone or label is meant to be reported with the
  item's title and the error, after the migrator has waited for it.  In a world where the
  destination rejects every write, the round for a milestone and the round for a label make
  the call and print nothing but the \<open>Creating\<close> line; in every world, neither round prints
  an error line.
\<close>

theorem C7_rejected_create_not_reported:
  "gh_write rejectingEnv (CreateMilestone ''Org'' ''Project'' ''v1'' ''first release'' ''open'' None)
     = Some (ApiError ''Validation Failed'')
   \<and> transferMilestone exampleSettings rejectingEnv [] milestoneV1
     = [ConsoleLog ''Creating: v1'',
        Call (CreateMilestone ''Org'' ''Project'' ''v1'' ''first release'' ''open'' None)]
   \<and> transferLabel exampleSettings rejectingEnv [] True labelBug
     = [ConsoleLog ''Creating: bug'', Call (CreateLabel ''Org'' ''Project'' ''bug'' ''ff0000'')]
   \<and> ConsoleError msg \<notin> set (transferMilestone st ev ghMilestones m)
   \<and> ConsoleError msg \<notin> set (transferLabel st ev ghLabels useLowerCase l)"
proof (intro conjI)
  show "gh_write rejectingEnv (CreateMilestone ''Org'' ''Project'' ''v1'' ''first release'' ''open'' None)
          = Some (ApiError ''Validation Failed'')"
    by (simp add: rejectingEnv_def)
  show "transferMilestone exampleSettings rejectingEnv [] milestoneV1
          = [ConsoleLog ''Creating: v1'',
             Call (CreateMilestone ''Org'' ''Project'' ''v1'' ''first release'' ''open'' None)]"
    by (simp add: transferMilestone_def createMilestone_def await_def exampleSettings_def
          milestoneV1_def Let_def)
  show "transferLabel exampleSettings rejectingEnv [] True labelBug
          = [ConsoleLog ''Creating: bug'', Call (CreateLabel ''Org'' ''Project'' ''bug'' ''ff0000'')]"
    by (simp add: transferLabel_def createLabel_def await_def exampleSettings_def labelBug_def
          truthy_def toLowerCase_Bug Let_def)
  show "ConsoleError msg \<notin> set (transferMilestone st ev ghMilestones m)"
    by (auto simp: transferMilestone_def createMilestone_def await_def Let_def split: option.splits)
  show "ConsoleError msg \<notin> set (transferLabel st ev ghLabels useLowerCase l)"
    by (auto simp: transferLabel_def createLabel_def await_def Let_def)
qed

subsection \<open>Matching by title\<close>

lemma find_is_None: "(find P xs = None) = (\<not> (\<exists>x\<in>set xs. P x))"
  by (auto simp: find_None_iff)

lemma find_Some_holds: "find P xs = Some x \<Longrightarrow> x \<in> set xs \<and> P x"
  by (auto simp: find_Some_iff)

text \<open>
  Claim C6, as stated, for milestones: titles are compared after trimming on both sides.
  The source milestone \<open>'' v1''\<close> and the destination milestone \<open>''v1''\<close> have the same
  trimmed title, and the source milestone is created again.
\<close>

theorem C6_title_match_counterexample:
  "trim (ghm_title destinationV1) = trim (ms_title spacedV1)
   \<and> transferMilestone exampleSettings quietEnv [destinationV1] spacedV1
       = [ConsoleLog ''Creating:  v1'',
          Call (CreateMilestone ''Org'' ''Project'' '' v1'' ''first release'' ''open'' None)]"
proof
  show "trim (ghm_title destinationV1) = trim (ms_title spacedV1)"
    by code_simp
  show "transferMilestone exampleSettings quietEnv [destinationV1] spacedV1
       = [ConsoleLog ''Creating:  v1'',
          Call (CreateMilestone ''Org'' ''Project'' '' v1'' ''first release'' ''open'' None)]"
    by (simp add: transferMilestone_def createMilestone_def await_def exampleSettings_def
          destinationV1_def spacedV1_def milestoneV1_def Let_def)
qed

text \<open>
  Claim C6, amended.  A source item is treated as already migrated exactly when some
  destination item has the same title: for issues the two titles are compared after trimming
  both, for milestones and merge requests they are compared as they are.  Nothing but the
  title is compared.
\<close>

theorem C6_title_match:
  "((\<exists>g\<in>set ghMilestones. ghm_title g = ms_title m)
      \<longleftrightarrow> transferMilestone st ev ghMilestones m = [ConsoleLog (''Already exists: '' @ ms_title m)])
   \<and> ((\<exists>g\<in>set ghIssues. trim (gh_title g) = trim (title issue))
      \<longleftrightarrow> (\<exists>g. transferIssue st ev milestoneData ghIssues issue
                 = ConsoleLog (''Already exists: '' @ showIid (iid issue) @ '' - '' @ title issue)
                   # fst (updateIssueState st ev g issue)))
   \<and> ((\<exists>g\<in>set ghPullRequests. pr_title g = mr_title mr)
      \<longleftrightarrow> (\<exists>n. transferMergeRequest st ev ghPullRequests mr
                 = [ConsoleLog (''Already exists as PR'' @ showNat n @ '' ('' @ showNat (mr_iid mr)
                                @ '' - '' @ mr_title mr @ '')'')]))"
proof (intro conjI)
  show "(\<exists>g\<in>set ghMilestones. ghm_title g = ms_title m)
      \<longleftrightarrow> transferMilestone st ev ghMilestones m = [ConsoleLog (''Already exists: '' @ ms_title m)]"
  proof (cases "find (\<lambda>g. ghm_title g = ms_title m) ghMilestones")
    case None
    then have "\<not> (\<exists>g\<in>set ghMilestones. ghm_title g = ms_title m)"
      by (simp add: find_is_None)
    then show ?thesis
      by (simp add: transferMilestone_def None await_def Let_def)
  next
    case (Some g)
    with find_Some_holds [OF Some] show ?thesis
      by (auto simp: transferMilestone_def)
  qed
  show "(\<exists>g\<in>set ghIssues. trim (gh_title g) = trim (title issue))
      \<longleftrightarrow> (\<exists>g. transferIssue st ev milestoneData ghIssues issue
                 = ConsoleLog (''Already exists: '' @ showIid (iid issue) @ '' - '' @ title issue)
                   # fst (updateIssueState st ev g issue))"
  proof (cases "find (\<lambda>g. trim (gh_title g) = trim (title issue)) ghIssues")
    case None
    then have "\<not> (\<exists>g\<in>set ghIssues. trim (gh_title g) = trim (title issue))"
      by (simp add: find_is_None)
    then show ?thesis
      by (simp add: transferIssue_def None)
  next
    case (Some g)
    with find_Some_holds [OF Some] show ?thesis
      by (auto simp: transferIssue_def)
  qed
  show "(\<exists>g\<in>set ghPullRequests. pr_title g = mr_title mr)
      \<longleftrightarrow> (\<exists>n. transferMergeRequest st ev ghPullRequests mr
                 = [ConsoleLog (''Already exists as PR'' @ showNat n @ '' ('' @ showNat (mr_iid mr)
                                @ '' - '' @ mr_title mr @ '')'')])"
  proof (cases "find (\<lambda>g. pr_title g = mr_title mr) ghPullRequests")
    case None
    then have "\<not> (\<exists>g\<in>set ghPullRequests. pr_title g = mr_title mr)"
      by (simp add: find_is_None)
    then show ?thesis
      by (simp add: transferMergeRequest_def None)
  next
    case (Some g)
    with find_Some_holds [OF Some] show ?thesis
      by (auto simp: transferMergeRequest_def)
  qed
qed

theorem C6_title_match_witness:
  "ghm_title destinationV1 = ms_title milestoneV1
   \<and> transferMilestone exampleSettings quietEnv [destinationV1] milestoneV1
       = [ConsoleLog ''Already exists: v1'']"
  using C6_title_match [of "[destinationV1]" milestoneV1 exampleSettings quietEnv]
  by (simp add: destinationV1_def milestoneV1_def)

subsection \<open>Notes\<close>

lemma replace_total:
  "(\<forall>a\<in>set alts. \<exists>b. cb a = Inr b) \<Longrightarrow> \<exists>r. replace alts cb s = Inr r"
proof (induction alts cb s rule: replace.induct)
  case (1 alts cb)
  show ?case
  proof (cases "find (\<lambda>a. a = []) alts")
    case None
    then show ?thesis by simp
  next
    case (Some a)
    from find_Some_holds [OF Some] 1 obtain b where "cb a = Inr b" by blast
    with Some show ?thesis by simp
  qed
next
  case (2 alts cb c cs)
  show ?case
  proof (cases "find (\<lambda>a. prefix a (c # cs)) alts")
    case None
    from 2(1) [OF None] 2(4) obtain r where "replace alts cb cs = Inr r" by blast
    with None show ?thesis by simp
  next
    case (Some a)
    from find_Some_holds [OF Some] 2(4) obtain b where b: "cb a = Inr b" by blast
    show ?thesis
    proof (cases "a = []")
      case True
      from 2(2) [OF Some b True] 2(4) obtain r where "replace alts cb cs = Inr r" by blast
      with Some b True show ?thesis by simp
    next
      case False
      from 2(3) [OF Some b False] 2(4) obtain r
        where "replace alts cb (drop (length a) (c # cs)) = Inr r" by blast
      with Some b False show ?thesis by simp
    qed
  qed
qed

lemma rewriteMatch_total:
  assumes "usermap st \<noteq> None" and "a \<in> set (generateUserProjectRe st)"
  shows "\<exists>b. rewriteMatch st a = Inr b"
proof -
  from assms(1) obtain kvs where u: "usermap st = Some kvs" by auto
  show ?thesis
  proof (cases "prefix ''@'' a")
    case True
    with u show ?thesis by (simp add: rewriteMatch_def getProp_def)
  next
    case False
    with assms(2) have "\<not> nullOrEmpty (projectmap st)"
      by (auto simp: generateUserProjectRe_def split: if_splits)
    then obtain pkvs where "projectmap st = Some pkvs" by (auto simp: nullOrEmpty_def)
    with False show ?thesis by (simp add: rewriteMatch_def getProp_def)
  qed
qed


lemma convert_total:
  assumes "literalKeys st" and "usermap st \<noteq> None \<or> nullOrEmpty (projectmap st)"
  shows "convertIssuesAndComments st rx fmt str a c = Inr (addMigrationLine fmt str a c)"
proof (cases "nullOrEmpty (usermap st) \<and> nullOrEmpty (projectmap st)")
  case True
  then show ?thesis by (simp add: convertIssuesAndComments_def)
next
  case False
  with assms(2) have u: "usermap st \<noteq> None" by (auto simp: nullOrEmpty_def)
  have "\<exists>r. replace (generateUserProjectRe st) (rewriteMatch st) (addMigrationLine fmt str a c) = Inr r"
    by (rule replace_total) (blast intro: rewriteMatch_total [OF u])
  with False assms(1) show ?thesis
    by (auto simp: convertIssuesAndComments_def Let_def)
qed
















subsection \<open>Attachments without a label list\<close>

lemma issueLabels_missing:
  assumes "labels issue = None" and "indexOf ''/uploads/'' body > - 1"
  shows "issueLabels body issue = Inl (TypeError ''Cannot read properties of undefined (reading push)'')"
proof -
  from assms(2) have "body \<noteq> []" by auto
  with assms show ?thesis by (simp add: issueLabels_def Let_def)
qed

lemma issueLabels_present:
  "labels issue = Some ls \<Longrightarrow> \<exists>l. issueLabels body issue = Inr l"
  by (simp add: issueLabels_def Let_def)

lemma indexOf_uploads: "indexOf ''/uploads/'' ''/uploads/'' > - 1"
  by simp

lemma issueLabels_total_iff:
  "(\<forall>body. \<exists>l. issueLabels body issue = Inr l) \<longleftrightarrow> labels issue \<noteq> None"
proof
  assume total: "\<forall>body. \<exists>l. issueLabels body issue = Inr l"
  show "labels issue \<noteq> None"
  proof
    assume "labels issue = None"
    from issueLabels_missing [OF this indexOf_uploads] total show False
      by (metis sum.distinct(1))
  qed
next
  assume "labels issue \<noteq> None"
  then show "\<forall>body. \<exists>l. issueLabels body issue = Inr l"
    by (auto intro: issueLabels_present)
qed

text \<open>
  Claim C10.  When an issue has no \<open>labels\<close> field and its converted body contains
  \<open>/uploads/\<close>, \<open>createIssue\<close> makes no create call: its promise rejects.  The
  attachment step throws a type error, and this is the error of \<open>createIssue\<close> whenever the
  assignee step before it has run through (as it does for the placeholder, which has no
  assignee).  The attachment step runs through for every body exactly when the issue has a
  \<open>labels\<close> field.
\<close>

theorem C10_attachment_without_labels:
  assumes "labels issue = None"
      and "convertIssuesAndComments st (regexReplace ev) (toLocaleString ev) (description issue)
             (author issue) (created_at issue) = Inr body"
      and "indexOf ''/uploads/'' body > - 1"
  shows "(\<exists>e. createIssue st ev owner repo milestones issue = ([], Inl e))
         \<and> issueLabels body issue
             = Inl (TypeError ''Cannot read properties of undefined (reading push)'')
         \<and> (\<forall>a. issueAssignees st issue = Inr a \<longrightarrow>
               createIssue st ev owner repo milestones issue
                 = ([], Inl (TypeError ''Cannot read properties of undefined (reading push)'')))
         \<and> ((\<forall>b. \<exists>l. issueLabels b item = Inr l) \<longleftrightarrow> labels item \<noteq> None)"
proof (intro conjI allI impI)
  note missing = issueLabels_missing [OF assms(1) assms(3)]
  show "\<exists>e. createIssue st ev owner repo milestones issue = ([], Inl e)"
    using assms(2) missing
    by (cases "issueAssignees st issue") (simp_all add: createIssue_def createIssueProps_def)
  show "issueLabels body issue = Inl (TypeError ''Cannot read properties of undefined (reading push)'')"
    by (rule missing)
  show "createIssue st ev owner repo milestones issue
          = ([], Inl (TypeError ''Cannot read properties of undefined (reading push)''))"
    if "issueAssignees st issue = Inr a" for a
    using that assms(2) missing by (simp add: createIssue_def createIssueProps_def)
  show "(\<forall>b. \<exists>l. issueLabels b item = Inr l) \<longleftrightarrow> labels item \<noteq> None"
    by (rule issueLabels_total_iff)
qed

theorem C10_attachment_without_labels_witness:
  "labels attachmentItem = None
   \<and> convertIssuesAndComments exampleSettings (regexReplace quietEnv) (toLocaleString quietEnv)
        (description attachmentItem) (author attachmentItem) (created_at attachmentItem)
       = Inr ''see /uploads/avatar.png''
   \<and> indexOf ''/uploads/'' ''see /uploads/avatar.png'' > - 1
   \<and> issueAssignees exampleSettings attachmentItem = Inr None
   \<and> createIssue exampleSettings quietEnv ''Org'' ''Project'' [] attachmentItem
       = ([], Inl (TypeError ''Cannot read properties of undefined (reading push)''))"
proof -
  have l: "labels attachmentItem = None"
    by (simp add: attachmentItem_def placeholderItem_def)
  have c: "convertIssuesAndComments exampleSettings (regexReplace quietEnv) (toLocaleString quietEnv)
        (description attachmentItem) (author attachmentItem) (created_at attachmentItem)
       = Inr ''see /uploads/avatar.png''"
    using convert_total [OF literalKeys_exampleSettings]
    by (simp add: exampleSettings_def attachmentItem_def placeholderItem_def addMigrationLine_def)
  have i: "indexOf ''/uploads/'' ''see /uploads/avatar.png'' > - 1"
    by simp
  have a: "issueAssignees exampleSettings attachmentItem = Inr None"
    by (simp add: issueAssignees_def attachmentItem_def placeholderItem_def)
  from C10_attachment_without_labels [OF l c i, of "''Org''" "''Project''" "[]"] a l c i
  show ?thesis by blast
qed

end
